theory Spec2Isabelle
  imports Main "HOL-Library.Char_ord" "HOL-Library.List_Lexorder"
begin

section \<open>Scalars, arrays and errors\<close>

text \<open>
  The imputer of \<^verbatim>\<open>sklearn_pandas/categorical_imputer.py\<close> works on a one-dimensional
  categorical/string array. An entry is Python's \<^verbatim>\<open>None\<close>, the float \<^verbatim>\<open>np.nan\<close>, or a
  string; strings are compared and ordered as Python does, lexicographically by
  character code.
\<close>

datatype pyval = PyNone | PyNaN | PyStr string

datatype error =
    InvalidStrategy
  | InvalidTieBreaking
  | EmptyData
  | ModeTie
  | NotFitted
  | IndexError
  | TypeError
  | UnboundLocalError

text \<open>\<^verbatim>\<open>pd.isnull\<close> on one entry: \<^verbatim>\<open>None\<close> and \<^verbatim>\<open>np.nan\<close> are null, a string never is.\<close>

fun isnull :: "pyval \<Rightarrow> bool" where
  "isnull PyNone = True"
| "isnull PyNaN = True"
| "isnull (PyStr s) = False"

text \<open>Python's \<^verbatim>\<open>==\<close> on two scalars: a float NaN is equal to nothing.\<close>

fun py_eq :: "pyval \<Rightarrow> pyval \<Rightarrow> bool" where
  "py_eq PyNaN b = False"
| "py_eq a PyNaN = False"
| "py_eq a b = (a = b)"

text \<open>\<^verbatim>\<open>isinstance(value, float) and np.isnan(value)\<close>\<close>

fun is_float_nan :: "pyval \<Rightarrow> bool" where
  "is_float_nan PyNaN = True"
| "is_float_nan v = False"

text \<open>
  \<^verbatim>\<open>
  def _get_mask(X, value):
      if value == "NaN" or value is None or (isinstance(value, float) and np.isnan(value)):
          return pd.isnull(X)
      else:
          return X == value
  \<close>
\<close>

definition get_mask :: "pyval list \<Rightarrow> pyval \<Rightarrow> bool list" where
  "get_mask X v =
     (if py_eq v (PyStr ''NaN'') \<or> v = PyNone \<or> is_float_nan v
      then map isnull X
      else map (\<lambda>x. py_eq x v) X)"

text \<open>Boolean-mask indexing: \<^verbatim>\<open>X[~mask]\<close> and \<^verbatim>\<open>X[mask] = v\<close>.\<close>

definition select_unmasked :: "pyval list \<Rightarrow> bool list \<Rightarrow> pyval list" where
  "select_unmasked X msk = map fst (filter (\<lambda>(x, m). \<not> m) (zip X msk))"

definition assign_masked :: "pyval list \<Rightarrow> bool list \<Rightarrow> pyval \<Rightarrow> pyval list" where
  "assign_masked X msk v = map (\<lambda>(x, m). if m then v else x) (zip X msk)"

text \<open>
  \<^verbatim>\<open>pd.Series(X).mode()\<close>: null entries are dropped, the values of highest count are
  kept once each, and the result is sorted ascending.
\<close>

definition dropna :: "pyval list \<Rightarrow> string list" where
  "dropna X = concat (map (\<lambda>v. case v of PyStr s \<Rightarrow> [s] | _ \<Rightarrow> []) X)"

definition most_frequent :: "string list \<Rightarrow> string list" where
  "most_frequent vs =
     filter (\<lambda>s. list_all (\<lambda>t. count_list vs t \<le> count_list vs s) vs) vs"

definition series_mode :: "pyval list \<Rightarrow> pyval list" where
  "series_mode X = map PyStr (sort (remdups (most_frequent (dropna X))))"

text \<open>
  \<^verbatim>\<open>random.choice(seq)\<close> returns \<^verbatim>\<open>seq[i]\<close> for a drawn index \<^verbatim>\<open>i < len(seq)\<close>, raises
  IndexError on an empty sequence and TypeError on an object without a length. The draw
  of the generator is the parameter \<open>r\<close>; the index is \<open>r mod len(seq)\<close>, so every index
  below the length is reachable and no other. Indexing a string gives the one-character
  string at that position.
\<close>

definition random_choice :: "nat \<Rightarrow> pyval \<Rightarrow> error + pyval" where
  "random_choice r seq =
     (case seq of
        PyStr s \<Rightarrow> (if s = [] then Inl IndexError else Inr (PyStr [s ! (r mod length s)]))
      | _ \<Rightarrow> Inl TypeError)"

section \<open>The imputer\<close>

text \<open>
  The object's attributes. The attribute \<^verbatim>\<open>fill_\<close> is the field \<open>fill'\<close>; it is \<open>None\<close>
  while the attribute does not exist, which is what \<^verbatim>\<open>check_is_fitted(self, 'fill_')\<close>
  tests.
\<close>

record imputer =
  missing_values :: pyval
  strategy :: string
  fill_value :: pyval
  tie_breaking :: string
  copy :: bool
  fill' :: "pyval option"

text \<open>\<^verbatim>\<open>__init__\<close>: stores the parameters, then validates the two policy names.\<close>

definition imputer_init :: "pyval \<Rightarrow> string \<Rightarrow> pyval \<Rightarrow> string \<Rightarrow> bool \<Rightarrow> error + imputer" where
  "imputer_init mv strat fv tb cp =
     (if strat \<notin> set [''constant'', ''most_frequent''] then Inl InvalidStrategy
      else if tb \<notin> set [''error'', ''first'', ''random''] then Inl InvalidTieBreaking
      else Inr \<lparr>missing_values = mv, strategy = strat, fill_value = fv,
                tie_breaking = tb, copy = cp, fill' = None\<rparr>)"

text \<open>
  \<^verbatim>\<open>fit\<close>: returns the raised error, if any, and the object after the call. Every
  \<^verbatim>\<open>raise\<close> comes before the assignment to \<^verbatim>\<open>self.fill_\<close>, so a failing call returns the
  object as it was. With a strategy outside the two names \<^verbatim>\<open>modes\<close> is never bound.
  \<^verbatim>\<open>
      mask = _get_mask(X, self.missing_values)
      X = X[~mask]
      if self.strategy == 'most_frequent':
          modes = pd.Series(X).mode()
      elif self.strategy == 'constant':
          modes = np.array([self.fill_value])
      if modes.shape[0] == 0:
          raise ValueError('Data is empty or all values are null')
      elif modes.shape[0] > 1 and self.tie_breaking == 'error':
          raise ValueError('No value is repeated more than once in the column')
      elif self.tie_breaking == 'random':
          self.fill_ = random.choice(modes[0])
      else:
          self.fill_ = modes[0]
      return self
  \<close>
\<close>

definition fit_modes :: "imputer \<Rightarrow> pyval list \<Rightarrow> error + pyval list" where
  "fit_modes self X =
     (let msk = get_mask X (missing_values self);
          X' = select_unmasked X msk
      in if strategy self = ''most_frequent'' then Inr (series_mode X')
         else if strategy self = ''constant'' then Inr [fill_value self]
         else Inl UnboundLocalError)"

definition fit :: "imputer \<Rightarrow> pyval list \<Rightarrow> nat \<Rightarrow> error option \<times> imputer" where
  "fit self X r =
     (case fit_modes self X of
        Inl e \<Rightarrow> (Some e, self)
      | Inr modes \<Rightarrow>
          if length modes = 0 then (Some EmptyData, self)
          else if length modes > 1 \<and> tie_breaking self = ''error'' then (Some ModeTie, self)
          else if tie_breaking self = ''random'' then
            (case random_choice r (modes ! 0) of
               Inl e \<Rightarrow> (Some e, self)
             | Inr v \<Rightarrow> (None, self\<lparr>fill' := Some v\<rparr>))
          else (None, self\<lparr>fill' := Some (modes ! 0)\<rparr>))"

text \<open>
  \<^verbatim>\<open>transform\<close> works on array objects, which the caller shares: the store holds the
  arrays, an address is an index into it, and \<^verbatim>\<open>X.copy()\<close> allocates a new array at the
  end of the store. \<^verbatim>\<open>np.asarray\<close> of an array is that same array.
  \<^verbatim>\<open>
      check_is_fitted(self, 'fill_')
      if self.copy:
          X = X.copy()
      mask = _get_mask(X, self.missing_values)
      X[mask] = self.fill_
      return np.asarray(X)
  \<close>
\<close>

type_synonym store = "pyval list list"

definition array_copy :: "store \<Rightarrow> nat \<Rightarrow> store \<times> nat" where
  "array_copy h x = (h @ [h ! x], length h)"

definition transform :: "imputer \<Rightarrow> store \<Rightarrow> nat \<Rightarrow> error + (store \<times> nat)" where
  "transform self h x =
     (case fill' self of
        None \<Rightarrow> Inl NotFitted
      | Some f \<Rightarrow>
          let (h1, x1) = (if copy self then array_copy h x else (h, x));
              msk = get_mask (h1 ! x1) (missing_values self);
              h2 = h1[x1 := assign_masked (h1 ! x1) msk f]
          in Inr (h2, x1))"

text \<open>
  \<^verbatim>\<open>transform\<close> on a literal sequence: the array is the only object of the store, and the
  result is the content of the returned array.
\<close>

definition transform_seq :: "imputer \<Rightarrow> pyval list \<Rightarrow> error + pyval list" where
  "transform_seq self X =
     (case transform self [X] 0 of Inl e \<Rightarrow> Inl e | Inr (h, y) \<Rightarrow> Inr (h ! y))"

section \<open>Notions used in the statements\<close>

text \<open>
  The values \<^verbatim>\<open>fit\<close> counts: the entries the mask leaves, without the null ones, which
  the mode computation drops.
\<close>

definition observed :: "imputer \<Rightarrow> pyval list \<Rightarrow> string list" where
  "observed self X = dropna (select_unmasked X (get_mask X (missing_values self)))"

text \<open>A mode of a collection: a member that no member outnumbers.\<close>

definition is_mode :: "string list \<Rightarrow> string \<Rightarrow> bool" where
  "is_mode vs s \<longleftrightarrow> s \<in> set vs \<and> list_all (\<lambda>t. count_list vs t \<le> count_list vs s) vs"

text \<open>
  A client calling \<^verbatim>\<open>fit\<close> several times on one object: each call is given by its
  training sequence and the draw of the random generator.
\<close>

definition fit_ok :: "imputer \<Rightarrow> pyval list \<times> nat \<Rightarrow> bool" where
  "fit_ok self c = (fst (fit self (fst c) (snd c)) = None)"

definition fit_call :: "imputer \<Rightarrow> pyval list \<times> nat \<Rightarrow> imputer" where
  "fit_call self c = snd (fit self (fst c) (snd c))"

definition fits :: "imputer \<Rightarrow> (pyval list \<times> nat) list \<Rightarrow> imputer" where
  "fits self cs = foldl fit_call self cs"

section \<open>Masks, assignment and the mode computation\<close>

lemma length_get_mask: "length (get_mask X v) = length X"
  by (simp add: get_mask_def)

lemma length_assign_masked: "length msk = length X \<Longrightarrow> length (assign_masked X msk v) = length X"
  by (simp add: assign_masked_def)

lemma nth_assign_masked:
  "length msk = length X \<Longrightarrow> i < length X \<Longrightarrow>
     assign_masked X msk v ! i = (if msk ! i then v else X ! i)"
  by (simp add: assign_masked_def)

lemma transform_seq_eq:
  "fill' self = Some f \<Longrightarrow>
     transform_seq self X = Inr (assign_masked X (get_mask X (missing_values self)) f)"
  by (simp add: transform_seq_def transform_def array_copy_def Let_def)

lemma transform_seq_not_fitted: "fill' self = None \<Longrightarrow> transform_seq self X = Inl NotFitted"
  by (simp add: transform_seq_def transform_def)

lemma set_most_frequent: "set (most_frequent vs) = {s. is_mode vs s}"
  by (auto simp: most_frequent_def is_mode_def)

lemma ex_is_mode:
  assumes "vs \<noteq> []"
  shows "\<exists>s. is_mode vs s"
proof -
  let ?C = "count_list vs ` set vs"
  have fin: "finite ?C" and ne: "?C \<noteq> {}" using assms by auto
  from Max_in [OF fin ne] obtain s where s: "s \<in> set vs" "count_list vs s = Max ?C" by auto
  have "count_list vs t \<le> count_list vs s" if "t \<in> set vs" for t
    using Max_ge [OF fin, of "count_list vs t"] that s by simp
  with s show ?thesis by (auto simp: is_mode_def list_all_iff)
qed

lemma series_mode_char:
  "\<exists>ms. series_mode X = map PyStr ms \<and> sorted ms \<and> distinct ms
        \<and> set ms = {s. is_mode (dropna X) s}"
  by (rule exI [of _ "sort (remdups (most_frequent (dropna X)))"])
     (simp add: series_mode_def set_most_frequent)

lemma series_mode_empty: "dropna X = [] \<Longrightarrow> series_mode X = []"
  by (simp add: series_mode_def most_frequent_def)

lemma sorted_distinct_singleton:
  assumes "distinct ms" "set ms = {m}"
  shows "ms = [m]"
proof -
  have "length ms = card (set ms)" using assms(1) by (simp add: distinct_card)
  then have "length ms = 1" using assms(2) by simp
  then obtain x where "ms = [x]" by (cases ms) auto
  with assms(2) show ?thesis by simp
qed

lemma series_mode_unique:
  assumes "is_mode (dropna X) m" "\<And>t. is_mode (dropna X) t \<Longrightarrow> t = m"
  shows "series_mode X = [PyStr m]"
proof -
  obtain ms where ms: "series_mode X = map PyStr ms" "distinct ms"
      "set ms = {s. is_mode (dropna X) s}"
    using series_mode_char by blast
  have "set ms = {m}" using assms ms(3) by blast
  with ms(2) have "ms = [m]" by (rule sorted_distinct_singleton)
  with ms(1) show ?thesis by simp
qed

lemma series_mode_tie:
  assumes "is_mode (dropna X) a" "is_mode (dropna X) b" "a \<noteq> b"
  shows "\<exists>m ms. series_mode X = PyStr m # map PyStr ms \<and> ms \<noteq> []
           \<and> is_mode (dropna X) m \<and> (\<forall>t. is_mode (dropna X) t \<longrightarrow> m \<le> t)"
proof -
  obtain ms where ms: "series_mode X = map PyStr ms" "sorted ms" "distinct ms"
      "set ms = {s. is_mode (dropna X) s}"
    using series_mode_char by blast
  have "{a, b} \<subseteq> set ms" using assms ms(4) by simp
  then have "card {a, b} \<le> card (set ms)" by (intro card_mono) auto
  then have len: "2 \<le> length ms" using assms(3) ms(3) by (simp add: distinct_card)
  then obtain m ms' where split: "ms = m # ms'" "ms' \<noteq> []"
    by (cases ms; cases "tl ms") auto
  have "is_mode (dropna X) m" using ms(4) split by auto
  moreover have "m \<le> t" if "is_mode (dropna X) t" for t
  proof -
    from that have "t \<in> set ms" using ms(4) by simp
    then show ?thesis using ms(2) split by auto
  qed
  ultimately show ?thesis using ms(1) split by auto
qed

section \<open>Fitting\<close>

lemma select_unmasked_all_masked:
  "list_all id msk \<Longrightarrow> select_unmasked X msk = []"
  by (auto simp: select_unmasked_def filter_empty_conv list_all_iff dest: set_zip_rightD)

lemma fit_modes_most_frequent:
  "strategy self = ''most_frequent'' \<Longrightarrow>
     fit_modes self X = Inr (series_mode (select_unmasked X (get_mask X (missing_values self))))"
  by (simp add: fit_modes_def)

lemma fit_modes_constant:
  "strategy self = ''constant'' \<Longrightarrow> fit_modes self X = Inr [fill_value self]"
  by (simp add: fit_modes_def)

lemma fit_most_frequent_unique:
  assumes "strategy self = ''most_frequent''"
    and "is_mode (observed self X) m"
    and "\<And>t. is_mode (observed self X) t \<Longrightarrow> t = m"
  shows "fit_modes self X = Inr [PyStr m]"
proof -
  have "series_mode (select_unmasked X (get_mask X (missing_values self))) = [PyStr m]"
    by (rule series_mode_unique) (use assms(2,3) in \<open>unfold observed_def\<close>)
  then show ?thesis using assms(1) by (simp add: fit_modes_most_frequent)
qed

lemma fit_most_frequent_tie:
  assumes "strategy self = ''most_frequent''"
    and "is_mode (observed self X) a" "is_mode (observed self X) b" "a \<noteq> b"
  shows "\<exists>m ms. fit_modes self X = Inr (PyStr m # map PyStr ms) \<and> ms \<noteq> []
           \<and> is_mode (observed self X) m \<and> (\<forall>t. is_mode (observed self X) t \<longrightarrow> m \<le> t)"
  using assms(2-) series_mode_tie [of "select_unmasked X (get_mask X (missing_values self))" a b]
  unfolding fit_modes_most_frequent [OF assms(1)] observed_def by simp

lemma fit_modes_same_config:
  "missing_values self' = missing_values self \<Longrightarrow> strategy self' = strategy self \<Longrightarrow>
     fill_value self' = fill_value self \<Longrightarrow> fit_modes self' X = fit_modes self X"
  by (simp add: fit_modes_def)

lemma fit_not_random:
  assumes "fit_modes self X = Inr (v # vs)" and "tie_breaking self \<noteq> ''random''"
    and "vs = [] \<or> tie_breaking self \<noteq> ''error''"
  shows "fit self X r = (None, self\<lparr>fill' := Some v\<rparr>)"
  using assms by (auto simp: fit_def)

lemma fit_random:
  assumes "fit_modes self X = Inr (v # vs)" and "tie_breaking self = ''random''"
  shows "fit self X r =
     (case random_choice r v of Inl e \<Rightarrow> (Some e, self)
      | Inr w \<Rightarrow> (None, self\<lparr>fill' := Some w\<rparr>))"
  using assms by (simp add: fit_def)

lemma fit_failure_unchanged: "fst (fit self X r) \<noteq> None \<Longrightarrow> snd (fit self X r) = self"
  by (auto simp: fit_def split: sum.splits if_splits)

lemma fit_success_fill: "fst (fit self X r) = None \<Longrightarrow> fill' (snd (fit self X r)) \<noteq> None"
  by (auto simp: fit_def split: sum.splits if_splits)

lemma fit_call_cases:
  "(\<not> fit_ok self c \<and> fit_call self c = self) \<or> (fit_ok self c \<and> fill' (fit_call self c) \<noteq> None)"
  using fit_failure_unchanged [of self "fst c" "snd c"] fit_success_fill [of self "fst c" "snd c"]
  by (auto simp: fit_ok_def fit_call_def)

lemma fits_snoc: "fits self (cs @ [c]) = fit_call (fits self cs) c"
  by (simp add: fits_def)

lemma fits_fill_iff:
  "fill' (fits self cs) \<noteq> None \<longleftrightarrow>
     fill' self \<noteq> None \<or> (\<exists>i<length cs. fit_ok (fits self (take i cs)) (cs ! i))"
proof (induction cs rule: rev_induct)
  case Nil
  show ?case by (simp add: fits_def)
next
  case (snoc c cs)
  let ?ok = "\<lambda>ds i. fit_ok (fits self (take i ds)) (ds ! i)"
  have old: "?ok (cs @ [c]) i = ?ok cs i" if "i < length cs" for i
    using that by (simp add: nth_append)
  have last: "?ok (cs @ [c]) (length cs) = fit_ok (fits self cs) c"
    by simp
  have ex: "(\<exists>i<length (cs @ [c]). ?ok (cs @ [c]) i)
      \<longleftrightarrow> (\<exists>i<length cs. ?ok cs i) \<or> fit_ok (fits self cs) c"
  proof
    assume "\<exists>i<length (cs @ [c]). ?ok (cs @ [c]) i"
    then obtain i where i: "i < Suc (length cs)" "?ok (cs @ [c]) i" by auto
    show "(\<exists>i<length cs. ?ok cs i) \<or> fit_ok (fits self cs) c"
    proof (cases "i < length cs")
      case True
      with i(2) old show ?thesis by blast
    next
      case False
      with i(1) have "i = length cs" by simp
      with i(2) last show ?thesis by simp
    qed
  next
    assume "(\<exists>i<length cs. ?ok cs i) \<or> fit_ok (fits self cs) c"
    then show "\<exists>i<length (cs @ [c]). ?ok (cs @ [c]) i"
    proof
      assume "\<exists>i<length cs. ?ok cs i"
      then obtain i where "i < length cs" "?ok cs i" by blast
      then have "i < length (cs @ [c])" "?ok (cs @ [c]) i" using old by simp_all
      then show ?thesis by blast
    next
      assume "fit_ok (fits self cs) c"
      then have "?ok (cs @ [c]) (length cs)" using last by simp
      then show ?thesis by (intro exI [of _ "length cs"]) simp
    qed
  qed
  have step: "fill' (fits self (cs @ [c])) \<noteq> None
      \<longleftrightarrow> fill' (fits self cs) \<noteq> None \<or> fit_ok (fits self cs) c"
    using fit_call_cases [of "fits self cs" c] by (auto simp: fits_snoc)
  show ?case unfolding step ex snoc.IH by blast
qed

lemma imputer_init_fill: "imputer_init mv strat fv tb cp = Inr self \<Longrightarrow> fill' self = None"
  by (auto simp: imputer_init_def split: if_splits)

lemma transform_not_fitted: "fill' self = None \<Longrightarrow> transform self h x = Inl NotFitted"
  by (simp add: transform_def)

lemma transform_copy:
  assumes "fill' self = Some f" and "copy self"
  shows "transform self h x =
     Inr (h @ [assign_masked (h ! x) (get_mask (h ! x) (missing_values self)) f], length h)"
  using assms by (simp add: transform_def array_copy_def Let_def)

lemma transform_in_place:
  assumes "fill' self = Some f" and "\<not> copy self"
  shows "transform self h x =
     Inr (h[x := assign_masked (h ! x) (get_mask (h ! x) (missing_values self)) f], x)"
  using assms by (simp add: transform_def Let_def)

lemma fit_random_string:
  assumes "fit_modes self X = Inr (PyStr s # vs)" and "tie_breaking self = ''random''"
    and "s \<noteq> []"
  shows "fit self X r = (None, self\<lparr>fill' := Some (PyStr [s ! (r mod length s)])\<rparr>)"
  using assms by (simp add: fit_random random_choice_def)

lemma fit_random_empty_string:
  assumes "fit_modes self X = Inr (PyStr [] # vs)" and "tie_breaking self = ''random''"
  shows "fit self X r = (Some IndexError, self)"
  using assms by (simp add: fit_random random_choice_def)

lemma fit_unique_mode_not_random:
  assumes "strategy self = ''most_frequent''" and "tie_breaking self \<noteq> ''random''"
    and "is_mode (observed self X) m"
    and "\<And>t. is_mode (observed self X) t \<Longrightarrow> t = m"
  shows "fit self X r = (None, self\<lparr>fill' := Some (PyStr m)\<rparr>)"
proof -
  have "fit_modes self X = Inr [PyStr m]"
    using assms(1,3,4) by (rule fit_most_frequent_unique)
  then show ?thesis using assms(2) by (rule fit_not_random) simp
qed

lemma fit_constant_not_random:
  assumes "strategy self = ''constant''" and "tie_breaking self \<noteq> ''random''"
  shows "fit self X r = (None, self\<lparr>fill' := Some (fill_value self)\<rparr>)"
proof -
  have "fit_modes self X = Inr [fill_value self]"
    using assms(1) by (rule fit_modes_constant)
  then show ?thesis using assms(2) by (rule fit_not_random) simp
qed

lemma fit_transform_unique_mode:
  assumes "strategy self = ''most_frequent''" and "tie_breaking self \<noteq> ''random''"
    and "is_mode (observed self X) m"
    and "\<And>t. is_mode (observed self X) t \<Longrightarrow> t = m"
  shows "transform_seq (snd (fit self X r)) X
     = Inr (assign_masked X (get_mask X (missing_values self)) (PyStr m))"
proof -
  have "fit self X r = (None, self\<lparr>fill' := Some (PyStr m)\<rparr>)"
    using assms by (rule fit_unique_mode_not_random)
  then show ?thesis by (simp add: transform_seq_eq)
qed

lemma get_mask_canonical:
  "v = PyStr ''NaN'' \<or> v = PyNone \<or> v = PyNaN \<Longrightarrow> get_mask X v = map isnull X"
  by (auto simp: get_mask_def)

lemma isnull_iff: "isnull x \<longleftrightarrow> x = PyNone \<or> x = PyNaN"
  by (cases x) simp_all

lemma get_mask_sentinel:
  "s \<noteq> ''NaN'' \<Longrightarrow> get_mask X (PyStr s) = map (\<lambda>x. x = PyStr s) X"
proof -
  have "py_eq x (PyStr s) = (x = PyStr s)" for x by (cases x) simp_all
  moreover assume "s \<noteq> ''NaN''"
  ultimately show ?thesis by (simp add: get_mask_def)
qed

section \<open>Claims about fitting\<close>

text \<open>
  C7: with \<^verbatim>\<open>strategy = "most_frequent"\<close>, a training sequence whose every entry is matched by
  the missing-value mask (the empty sequence among them) makes \<^verbatim>\<open>fit\<close> raise the
  "Data is empty or all values are null" error, under every tie-breaking policy, and the
  object is left as it was.
\<close>

theorem fit_all_missing_empty_data:
  assumes "strategy self = ''most_frequent''"
    and "list_all id (get_mask X (missing_values self))"
  shows "fit self X r = (Some EmptyData, self)"
proof -
  have "select_unmasked X (get_mask X (missing_values self)) = []"
    using assms(2) by (rule select_unmasked_all_masked)
  then have "fit_modes self X = Inr []"
    using assms(1) by (simp add: fit_modes_most_frequent series_mode_empty dropna_def)
  then show ?thesis by (simp add: fit_def)
qed

theorem fit_all_missing_empty_data_witness:
  "strategy \<lparr>missing_values = PyStr ''NaN'', strategy = ''most_frequent'',
        fill_value = PyStr ''?'', tie_breaking = ''first'', copy = True, fill' = Some (PyStr ''a'')\<rparr>
     = ''most_frequent''
   \<and> list_all id (get_mask [PyNone, PyNaN, PyNone] (PyStr ''NaN''))
   \<and> fit \<lparr>missing_values = PyStr ''NaN'', strategy = ''most_frequent'',
        fill_value = PyStr ''?'', tie_breaking = ''first'', copy = True, fill' = Some (PyStr ''a'')\<rparr>
        [PyNone, PyNaN, PyNone] 7
     = (Some EmptyData, \<lparr>missing_values = PyStr ''NaN'', strategy = ''most_frequent'',
        fill_value = PyStr ''?'', tie_breaking = ''first'', copy = True, fill' = Some (PyStr ''a'')\<rparr>)
   \<and> fit \<lparr>missing_values = PyStr ''?'', strategy = ''most_frequent'',
        fill_value = PyStr ''?'', tie_breaking = ''random'', copy = True, fill' = None\<rparr> [] 0
     = (Some EmptyData, \<lparr>missing_values = PyStr ''?'', strategy = ''most_frequent'',
        fill_value = PyStr ''?'', tie_breaking = ''random'', copy = True, fill' = None\<rparr>)"
  using fit_all_missing_empty_data [of "\<lparr>missing_values = PyStr ''NaN'', strategy = ''most_frequent'',
        fill_value = PyStr ''?'', tie_breaking = ''first'', copy = True, fill' = Some (PyStr ''a'')\<rparr>"
        "[PyNone, PyNaN, PyNone]" 7]
    fit_all_missing_empty_data [of "\<lparr>missing_values = PyStr ''?'', strategy = ''most_frequent'',
        fill_value = PyStr ''?'', tie_breaking = ''random'', copy = True, fill' = None\<rparr>" "[]" 0]
  by (simp add: get_mask_def)

text \<open>
  C8: with \<^verbatim>\<open>strategy = "most_frequent"\<close> and \<^verbatim>\<open>tie_breaking = "error"\<close>, a training sequence
  whose counted values have two different modes makes \<^verbatim>\<open>fit\<close> raise the tie error. The
  instance below is the sequence a, b, b, "NaN", a with \<^verbatim>\<open>missing_values = "NaN"\<close>: a and b
  both occur twice and \<^verbatim>\<open>fit\<close> raises the tie error.
\<close>

theorem fit_tie_error:
  assumes "strategy self = ''most_frequent''" and "tie_breaking self = ''error''"
    and "is_mode (observed self X) a" and "is_mode (observed self X) b" and "a \<noteq> b"
  shows "fit self X r = (Some ModeTie, self)"
proof -
  obtain m ms where "fit_modes self X = Inr (PyStr m # map PyStr ms)" "ms \<noteq> []"
    using fit_most_frequent_tie [OF assms(1,3,4,5)] by blast
  then show ?thesis using assms(2) by (simp add: fit_def)
qed

theorem fit_tie_error_witness:
  "observed \<lparr>missing_values = PyStr ''NaN'', strategy = ''most_frequent'',
        fill_value = PyStr ''?'', tie_breaking = ''error'', copy = True, fill' = None\<rparr>
      [PyStr ''a'', PyStr ''b'', PyStr ''b'', PyStr ''NaN'', PyStr ''a'']
     = [''a'', ''b'', ''b'', ''NaN'', ''a'']
   \<and> count_list [''a'', ''b'', ''b'', ''NaN'', ''a''] ''a'' = 2
   \<and> count_list [''a'', ''b'', ''b'', ''NaN'', ''a''] ''b'' = 2
   \<and> is_mode [''a'', ''b'', ''b'', ''NaN'', ''a''] ''a''
   \<and> is_mode [''a'', ''b'', ''b'', ''NaN'', ''a''] ''b''
   \<and> fit \<lparr>missing_values = PyStr ''NaN'', strategy = ''most_frequent'',
        fill_value = PyStr ''?'', tie_breaking = ''error'', copy = True, fill' = None\<rparr>
        [PyStr ''a'', PyStr ''b'', PyStr ''b'', PyStr ''NaN'', PyStr ''a''] 0
     = (Some ModeTie, \<lparr>missing_values = PyStr ''NaN'', strategy = ''most_frequent'',
        fill_value = PyStr ''?'', tie_breaking = ''error'', copy = True, fill' = None\<rparr>)"
proof -
  let ?c = "\<lparr>missing_values = PyStr ''NaN'', strategy = ''most_frequent'',
        fill_value = PyStr ''?'', tie_breaking = ''error'', copy = True, fill' = None\<rparr>"
  let ?X = "[PyStr ''a'', PyStr ''b'', PyStr ''b'', PyStr ''NaN'', PyStr ''a'']"
  have obs: "observed ?c ?X = [''a'', ''b'', ''b'', ''NaN'', ''a'']"
    by (simp add: observed_def get_mask_def select_unmasked_def dropna_def)
  have a: "is_mode [''a'', ''b'', ''b'', ''NaN'', ''a''] ''a''"
    and b: "is_mode [''a'', ''b'', ''b'', ''NaN'', ''a''] ''b''"
    by (simp_all add: is_mode_def)
  have "fit ?c ?X 0 = (Some ModeTie, ?c)"
    using fit_tie_error [of ?c ?X "''a''" "''b''" 0] a b by (simp add: obs)
  then show ?thesis using obs a b by simp
qed

text \<open>
  C10: with \<^verbatim>\<open>strategy = "most_frequent"\<close> and \<^verbatim>\<open>tie_breaking = "first"\<close>, on a training
  sequence whose counted values have two different modes \<^verbatim>\<open>fit\<close> returns without raising and
  stores the first entry of the mode computation's result, which is the least of the tied
  values in the order of strings. The stored value is the same for every draw of the random
  generator and on every object with this configuration, whatever it had learned before.
\<close>

theorem fit_tie_first:
  assumes "strategy self = ''most_frequent''" and "tie_breaking self = ''first''"
    and "is_mode (observed self X) a" and "is_mode (observed self X) b" and "a \<noteq> b"
  shows "\<exists>m ms. fit_modes self X = Inr (PyStr m # ms)
           \<and> is_mode (observed self X) m
           \<and> (\<forall>t. is_mode (observed self X) t \<longrightarrow> m \<le> t)
           \<and> (\<forall>r'. fit self X r' = (None, self\<lparr>fill' := Some (PyStr m)\<rparr>))
           \<and> (\<forall>self' r'. missing_values self' = missing_values self
                 \<and> strategy self' = ''most_frequent'' \<and> tie_breaking self' = ''first''
                 \<longrightarrow> fill' (snd (fit self' X r')) = Some (PyStr m))"
proof -
  obtain m ms where modes: "fit_modes self X = Inr (PyStr m # map PyStr ms)"
    and m: "is_mode (observed self X) m" "\<forall>t. is_mode (observed self X) t \<longrightarrow> m \<le> t"
    using fit_most_frequent_tie [OF assms(1,3,4,5)] by blast
  have here: "fit self X r' = (None, self\<lparr>fill' := Some (PyStr m)\<rparr>)" for r'
    using modes assms(2) by (intro fit_not_random) simp_all
  have there: "fill' (snd (fit self' X r')) = Some (PyStr m)"
    if "missing_values self' = missing_values self" "strategy self' = ''most_frequent''"
      "tie_breaking self' = ''first''" for self' r'
  proof -
    have "fit_modes self' X = Inr (PyStr m # map PyStr ms)"
      using modes that(1,2) assms(1) by (simp add: fit_modes_most_frequent)
    then have "fit self' X r' = (None, self'\<lparr>fill' := Some (PyStr m)\<rparr>)"
      using that(3) by (intro fit_not_random) simp_all
    then show ?thesis by simp
  qed
  show ?thesis using modes m here there by blast
qed

theorem fit_tie_first_witness:
  "is_mode (observed \<lparr>missing_values = PyStr ''NaN'', strategy = ''most_frequent'',
            fill_value = PyStr ''?'', tie_breaking = ''first'', copy = True, fill' = None\<rparr>
          [PyStr ''b'', PyStr ''a'', PyNone, PyStr ''c'', PyStr ''b'', PyStr ''a'']) ''a''
   \<and> is_mode (observed \<lparr>missing_values = PyStr ''NaN'', strategy = ''most_frequent'',
            fill_value = PyStr ''?'', tie_breaking = ''first'', copy = True, fill' = None\<rparr>
          [PyStr ''b'', PyStr ''a'', PyNone, PyStr ''c'', PyStr ''b'', PyStr ''a'']) ''b''
   \<and> fit \<lparr>missing_values = PyStr ''NaN'', strategy = ''most_frequent'',
            fill_value = PyStr ''?'', tie_breaking = ''first'', copy = True, fill' = None\<rparr>
          [PyStr ''b'', PyStr ''a'', PyNone, PyStr ''c'', PyStr ''b'', PyStr ''a''] 0
        = (None, \<lparr>missing_values = PyStr ''NaN'', strategy = ''most_frequent'',
            fill_value = PyStr ''?'', tie_breaking = ''first'', copy = True,
            fill' = Some (PyStr ''a'')\<rparr>)
   \<and> fit \<lparr>missing_values = PyStr ''NaN'', strategy = ''most_frequent'',
            fill_value = PyStr ''?'', tie_breaking = ''first'', copy = True, fill' = None\<rparr>
          [PyStr ''b'', PyStr ''a'', PyNone, PyStr ''c'', PyStr ''b'', PyStr ''a''] 5
        = (None, \<lparr>missing_values = PyStr ''NaN'', strategy = ''most_frequent'',
            fill_value = PyStr ''?'', tie_breaking = ''first'', copy = True,
            fill' = Some (PyStr ''a'')\<rparr>)"
proof -
  let ?c = "\<lparr>missing_values = PyStr ''NaN'', strategy = ''most_frequent'',
            fill_value = PyStr ''?'', tie_breaking = ''first'', copy = True, fill' = None\<rparr>"
  let ?X = "[PyStr ''b'', PyStr ''a'', PyNone, PyStr ''c'', PyStr ''b'', PyStr ''a'']"
  have obs: "observed ?c ?X = [''b'', ''a'', ''c'', ''b'', ''a'']"
    by (simp add: observed_def get_mask_def select_unmasked_def dropna_def)
  have a: "is_mode (observed ?c ?X) ''a''" and b: "is_mode (observed ?c ?X) ''b''"
    unfolding obs by (simp_all add: is_mode_def)
  have modes: "fit_modes ?c ?X = Inr [PyStr ''a'', PyStr ''b'']"
    by code_simp
  from fit_tie_first [of ?c ?X "''a''" "''b''"] a b
  obtain m ms where "fit_modes ?c ?X = Inr (PyStr m # ms)"
    and "\<forall>r'. fit ?c ?X r' = (None, ?c\<lparr>fill' := Some (PyStr m)\<rparr>)"
    by auto
  with modes have "\<forall>r'. fit ?c ?X r' = (None, ?c\<lparr>fill' := Some (PyStr ''a'')\<rparr>)"
    by simp
  with a b show ?thesis by simp
qed

section \<open>The learned state\<close>

text \<open>
  C6: on an object built by the constructor, after any sequence of \<^verbatim>\<open>fit\<close> calls the
  attribute \<^verbatim>\<open>fill_\<close> exists if and only if one of the calls returned without raising;
  while none has, \<^verbatim>\<open>transform\<close> raises the not-fitted error; and a \<^verbatim>\<open>fit\<close> call that raises,
  whatever the error, leaves the object, and so \<^verbatim>\<open>fill_\<close>, exactly as it was before the
  call.
\<close>

theorem fill_exists_iff_fit_succeeded:
  assumes "imputer_init mv strat fv tb cp = Inr self0"
  shows "(fill' (fits self0 cs) \<noteq> None
            \<longleftrightarrow> (\<exists>i<length cs. fit_ok (fits self0 (take i cs)) (cs ! i)))
       \<and> ((\<forall>i<length cs. \<not> fit_ok (fits self0 (take i cs)) (cs ! i))
            \<longrightarrow> transform (fits self0 cs) h x = Inl NotFitted)
       \<and> (fst (fit self X r) \<noteq> None \<longrightarrow> snd (fit self X r) = self)"
proof -
  have none: "fill' self0 = None" using assms by (rule imputer_init_fill)
  have inv: "fill' (fits self0 cs) \<noteq> None
      \<longleftrightarrow> (\<exists>i<length cs. fit_ok (fits self0 (take i cs)) (cs ! i))"
    using fits_fill_iff [of self0 cs] none by simp
  have "transform (fits self0 cs) h x = Inl NotFitted"
    if "\<forall>i<length cs. \<not> fit_ok (fits self0 (take i cs)) (cs ! i)"
  proof -
    from that inv have "fill' (fits self0 cs) = None" by blast
    then show ?thesis by (rule transform_not_fitted)
  qed
  then show ?thesis using inv fit_failure_unchanged [of self X r] by blast
qed

theorem fill_exists_iff_fit_succeeded_witness:
  "imputer_init (PyStr ''NaN'') ''most_frequent'' (PyStr ''?'') ''error'' True
     = Inr \<lparr>missing_values = PyStr ''NaN'', strategy = ''most_frequent'',
            fill_value = PyStr ''?'', tie_breaking = ''error'', copy = True, fill' = None\<rparr>
   \<and> \<not> fit_ok \<lparr>missing_values = PyStr ''NaN'', strategy = ''most_frequent'',
            fill_value = PyStr ''?'', tie_breaking = ''error'', copy = True, fill' = None\<rparr>
          ([PyNone], 0)
   \<and> transform (fits \<lparr>missing_values = PyStr ''NaN'', strategy = ''most_frequent'',
            fill_value = PyStr ''?'', tie_breaking = ''error'', copy = True, fill' = None\<rparr>
          [([PyNone], 0)]) [[PyStr ''a'', PyNone]] 0 = Inl NotFitted
   \<and> fst (fit \<lparr>missing_values = PyStr ''NaN'', strategy = ''most_frequent'',
            fill_value = PyStr ''?'', tie_breaking = ''error'', copy = True,
            fill' = Some (PyStr ''a'')\<rparr> [PyStr ''a'', PyStr ''b''] 0) \<noteq> None
   \<and> snd (fit \<lparr>missing_values = PyStr ''NaN'', strategy = ''most_frequent'',
            fill_value = PyStr ''?'', tie_breaking = ''error'', copy = True,
            fill' = Some (PyStr ''a'')\<rparr> [PyStr ''a'', PyStr ''b''] 0)
       = \<lparr>missing_values = PyStr ''NaN'', strategy = ''most_frequent'',
            fill_value = PyStr ''?'', tie_breaking = ''error'', copy = True,
            fill' = Some (PyStr ''a'')\<rparr>"
proof -
  let ?c = "\<lparr>missing_values = PyStr ''NaN'', strategy = ''most_frequent'',
            fill_value = PyStr ''?'', tie_breaking = ''error'', copy = True, fill' = None\<rparr>"
  let ?d = "?c\<lparr>fill' := Some (PyStr ''a'')\<rparr>"
  have init: "imputer_init (PyStr ''NaN'') ''most_frequent'' (PyStr ''?'') ''error'' True = Inr ?c"
    by (simp add: imputer_init_def)
  have bad: "\<not> fit_ok ?c ([PyNone], 0)"
    by code_simp
  have tie: "fst (fit ?d [PyStr ''a'', PyStr ''b''] 0) \<noteq> None"
    by code_simp
  have "\<forall>i<length [([PyNone], 0::nat)]. \<not> fit_ok (fits ?c (take i [([PyNone], 0)])) ([([PyNone], 0)] ! i)"
    using bad by (simp add: fits_def)
  with fill_exists_iff_fit_succeeded [OF init, of "[([PyNone], 0)]" "[[PyStr ''a'', PyNone]]" 0
      ?d "[PyStr ''a'', PyStr ''b'']" 0] tie
  have "transform (fits ?c [([PyNone], 0)]) [[PyStr ''a'', PyNone]] 0 = Inl NotFitted"
    and "snd (fit ?d [PyStr ''a'', PyStr ''b''] 0) = ?d"
    by blast+
  with init bad tie show ?thesis by simp
qed

section \<open>Transforming\<close>

text \<open>
  C9: on a fitted imputer \<^verbatim>\<open>transform\<close> returns an array holding the input with \<^verbatim>\<open>fill_\<close>
  at the masked positions. With \<^verbatim>\<open>copy = True\<close> the returned array is a new object and every
  array that existed before the call, the input among them, is unchanged. With
  \<^verbatim>\<open>copy = False\<close> the returned array is the input object itself, which now holds the
  result, and every other array is unchanged.
\<close>

theorem transform_copy_flag:
  assumes "fill' self = Some f" and "x < length h"
  shows "\<exists>h' y. transform self h x = Inr (h', y)
           \<and> h' ! y = assign_masked (h ! x) (get_mask (h ! x) (missing_values self)) f
           \<and> (copy self \<longrightarrow> h' ! x = h ! x \<and> y = length h \<and> take (length h) h' = h)
           \<and> (\<not> copy self \<longrightarrow> y = x \<and> h' ! x = h' ! y \<and> length h' = length h
                  \<and> (\<forall>a<length h. a \<noteq> x \<longrightarrow> h' ! a = h ! a))"
proof (cases "copy self")
  case True
  let ?new = "assign_masked (h ! x) (get_mask (h ! x) (missing_values self)) f"
  have "transform self h x = Inr (h @ [?new], length h)"
    using assms(1) True by (rule transform_copy)
  moreover have "(h @ [?new]) ! x = h ! x" using assms(2) by (simp add: nth_append)
  moreover have "(h @ [?new]) ! length h = ?new" by simp
  moreover have "take (length h) (h @ [?new]) = h" by simp
  ultimately show ?thesis using True by blast
next
  case False
  let ?new = "assign_masked (h ! x) (get_mask (h ! x) (missing_values self)) f"
  have "transform self h x = Inr (h[x := ?new], x)"
    using assms(1) False by (rule transform_in_place)
  moreover have "h[x := ?new] ! x = ?new" using assms(2) by simp
  moreover have "length (h[x := ?new]) = length h" by simp
  moreover have "\<forall>a<length h. a \<noteq> x \<longrightarrow> h[x := ?new] ! a = h ! a" by simp
  ultimately show ?thesis using False by blast
qed

theorem transform_copy_flag_witness:
  "fill' \<lparr>missing_values = PyStr ''NaN'', strategy = ''most_frequent'',
            fill_value = PyStr ''?'', tie_breaking = ''error'', copy = True,
            fill' = Some (PyStr ''b'')\<rparr> = Some (PyStr ''b'')
   \<and> (1::nat) < length [[PyStr ''x''], [PyStr ''a'', PyNone, PyNaN]]
   \<and> transform \<lparr>missing_values = PyStr ''NaN'', strategy = ''most_frequent'',
            fill_value = PyStr ''?'', tie_breaking = ''error'', copy = True,
            fill' = Some (PyStr ''b'')\<rparr> [[PyStr ''x''], [PyStr ''a'', PyNone, PyNaN]] 1
       = Inr ([[PyStr ''x''], [PyStr ''a'', PyNone, PyNaN], [PyStr ''a'', PyStr ''b'', PyStr ''b'']], 2)
   \<and> transform \<lparr>missing_values = PyStr ''NaN'', strategy = ''most_frequent'',
            fill_value = PyStr ''?'', tie_breaking = ''error'', copy = False,
            fill' = Some (PyStr ''b'')\<rparr> [[PyStr ''x''], [PyStr ''a'', PyNone, PyNaN]] 1
       = Inr ([[PyStr ''x''], [PyStr ''a'', PyStr ''b'', PyStr ''b'']], 1)"
proof -
  let ?c = "\<lparr>missing_values = PyStr ''NaN'', strategy = ''most_frequent'',
            fill_value = PyStr ''?'', tie_breaking = ''error'', copy = True,
            fill' = Some (PyStr ''b'')\<rparr>"
  let ?h = "[[PyStr ''x''], [PyStr ''a'', PyNone, PyNaN]]"
  let ?d = "?c\<lparr>copy := False\<rparr>"
  have hyp: "fill' ?c = Some (PyStr ''b'')" "fill' ?d = Some (PyStr ''b'')" "1 < length ?h"
    by simp_all
  have copied: "transform ?c ?h 1
      = Inr ([[PyStr ''x''], [PyStr ''a'', PyNone, PyNaN], [PyStr ''a'', PyStr ''b'', PyStr ''b'']], 2)"
    by (simp add: transform_def array_copy_def assign_masked_def get_mask_def)
  have in_place: "transform ?d ?h 1
      = Inr ([[PyStr ''x''], [PyStr ''a'', PyStr ''b'', PyStr ''b'']], 1)"
    by (simp add: transform_def assign_masked_def get_mask_def)
  from transform_copy_flag [OF hyp(1,3)] copied
  have "[[PyStr ''x''], [PyStr ''a'', PyNone, PyNaN], [PyStr ''a'', PyStr ''b'', PyStr ''b'']] ! 1
      = ?h ! 1"
    by simp
  moreover from transform_copy_flag [OF hyp(2,3)] in_place
  have "length [[PyStr ''x''], [PyStr ''a'', PyStr ''b'', PyStr ''b'']] = length ?h"
    by simp
  ultimately show ?thesis using copied in_place by simp
qed

section \<open>The random tie-breaking branch\<close>

text \<open>
  The branch for \<^verbatim>\<open>tie_breaking = "random"\<close> calls \<^verbatim>\<open>random.choice(modes[0])\<close>: it draws from
  the first mode, a string, and not from the series of modes. It is taken whenever the
  policy is "random" and no error was raised before, with one mode or several and under
  either strategy. Lemma \<open>fit_random_string\<close> gives the stored value: one character of
  the first mode. The class documentation describes the policy as choosing from the tied
  set, and \<^verbatim>\<open>fill_value\<close> as the value stored under the strategy "constant".
\<close>

text \<open>
  C1: with \<^verbatim>\<open>strategy = "most_frequent"\<close> and \<^verbatim>\<open>tie_breaking = "random"\<close>, on the training
  sequence "ab", "cd" the modes are "ab" and "cd", and for every draw \<^verbatim>\<open>fit\<close> stores a
  one-character string taken from "ab", which is neither of the tied values.
\<close>

theorem fit_random_tie_character:
  "fit_modes \<lparr>missing_values = PyStr ''NaN'', strategy = ''most_frequent'',
        fill_value = PyStr ''?'', tie_breaking = ''random'', copy = True, fill' = None\<rparr>
      [PyStr ''ab'', PyStr ''cd''] = Inr [PyStr ''ab'', PyStr ''cd'']
   \<and> fit \<lparr>missing_values = PyStr ''NaN'', strategy = ''most_frequent'',
        fill_value = PyStr ''?'', tie_breaking = ''random'', copy = True, fill' = None\<rparr>
      [PyStr ''ab'', PyStr ''cd''] r
     = (None, \<lparr>missing_values = PyStr ''NaN'', strategy = ''most_frequent'',
        fill_value = PyStr ''?'', tie_breaking = ''random'', copy = True,
        fill' = Some (PyStr [''ab'' ! (r mod 2)])\<rparr>)
   \<and> PyStr [''ab'' ! (r mod 2)] \<notin> {PyStr ''ab'', PyStr ''cd''}"
proof -
  let ?c = "\<lparr>missing_values = PyStr ''NaN'', strategy = ''most_frequent'',
        fill_value = PyStr ''?'', tie_breaking = ''random'', copy = True, fill' = None\<rparr>"
  have modes: "fit_modes ?c [PyStr ''ab'', PyStr ''cd''] = Inr [PyStr ''ab'', PyStr ''cd'']"
    by code_simp
  have len: "length ''ab'' = 2"
    by simp
  have "fit ?c [PyStr ''ab'', PyStr ''cd''] r
      = (None, ?c\<lparr>fill' := Some (PyStr [''ab'' ! (r mod 2)])\<rparr>)"
    using fit_random_string [OF modes, of r] unfolding len by simp
  then show ?thesis using modes by simp
qed

text \<open>
  C2: with \<^verbatim>\<open>strategy = "most_frequent"\<close> and \<^verbatim>\<open>tie_breaking = "random"\<close>, on the training
  sequence "ab", "ab", "c" the only mode is "ab", and for every draw \<^verbatim>\<open>fit\<close> stores a
  one-character string taken from "ab", which is not that mode. Under the other two
  policies the unique mode is stored (lemma \<open>fit_unique_mode_not_random\<close>).
\<close>

theorem fit_random_unique_mode_character:
  "fit_modes \<lparr>missing_values = PyStr ''NaN'', strategy = ''most_frequent'',
        fill_value = PyStr ''?'', tie_breaking = ''random'', copy = True, fill' = None\<rparr>
      [PyStr ''ab'', PyStr ''ab'', PyStr ''c''] = Inr [PyStr ''ab'']
   \<and> fit \<lparr>missing_values = PyStr ''NaN'', strategy = ''most_frequent'',
        fill_value = PyStr ''?'', tie_breaking = ''random'', copy = True, fill' = None\<rparr>
      [PyStr ''ab'', PyStr ''ab'', PyStr ''c''] r
     = (None, \<lparr>missing_values = PyStr ''NaN'', strategy = ''most_frequent'',
        fill_value = PyStr ''?'', tie_breaking = ''random'', copy = True,
        fill' = Some (PyStr [''ab'' ! (r mod 2)])\<rparr>)
   \<and> PyStr [''ab'' ! (r mod 2)] \<noteq> PyStr ''ab''"
proof -
  let ?c = "\<lparr>missing_values = PyStr ''NaN'', strategy = ''most_frequent'',
        fill_value = PyStr ''?'', tie_breaking = ''random'', copy = True, fill' = None\<rparr>"
  let ?X = "[PyStr ''ab'', PyStr ''ab'', PyStr ''c'']"
  have modes: "fit_modes ?c ?X = Inr [PyStr ''ab'']"
    by code_simp
  have len: "length ''ab'' = 2"
    by simp
  have "fit ?c ?X r = (None, ?c\<lparr>fill' := Some (PyStr [''ab'' ! (r mod 2)])\<rparr>)"
    using fit_random_string [OF modes, of r] unfolding len by simp
  then show ?thesis using modes by simp
qed

text \<open>
  C4: with \<^verbatim>\<open>strategy = "constant"\<close>, \<^verbatim>\<open>fill_value = "missing"\<close> and
  \<^verbatim>\<open>tie_breaking = "random"\<close>, on every training sequence and for every draw \<^verbatim>\<open>fit\<close> returns
  without raising and stores one character of "missing", which is not the configured fill
  value. Under the other two policies the fill value is stored on every sequence (lemma
  \<open>fit_constant_not_random\<close>).
\<close>

theorem fit_constant_random_character:
  "fit \<lparr>missing_values = PyStr ''NaN'', strategy = ''constant'',
        fill_value = PyStr ''missing'', tie_breaking = ''random'', copy = True, fill' = None\<rparr>
      X r
     = (None, \<lparr>missing_values = PyStr ''NaN'', strategy = ''constant'',
        fill_value = PyStr ''missing'', tie_breaking = ''random'', copy = True,
        fill' = Some (PyStr [''missing'' ! (r mod 7)])\<rparr>)
   \<and> PyStr [''missing'' ! (r mod 7)] \<noteq> PyStr ''missing''"
proof -
  let ?c = "\<lparr>missing_values = PyStr ''NaN'', strategy = ''constant'',
        fill_value = PyStr ''missing'', tie_breaking = ''random'', copy = True, fill' = None\<rparr>"
  have modes: "fit_modes ?c X = Inr [PyStr ''missing'']"
    by (simp add: fit_modes_constant)
  have len: "length ''missing'' = 7"
    by simp
  have "fit ?c X r = (None, ?c\<lparr>fill' := Some (PyStr [''missing'' ! (r mod 7)])\<rparr>)"
    using fit_random_string [OF modes, of r] unfolding len by simp
  then show ?thesis by simp
qed

text \<open>
  C5: with \<^verbatim>\<open>strategy = "most_frequent"\<close> and \<^verbatim>\<open>tie_breaking = "random"\<close>, on the sequence
  "ab", None the only mode is "ab", and for every draw \<^verbatim>\<open>fit\<close> followed by \<^verbatim>\<open>transform\<close> of
  the same sequence returns "ab" followed by one character of "ab": the missing entry is not
  replaced with the mode. Under the other two policies every masked entry is replaced with
  the unique mode and every other entry is kept (lemma \<open>fit_transform_unique_mode\<close>).
\<close>

theorem fit_transform_random_character:
  "fit_modes \<lparr>missing_values = PyStr ''NaN'', strategy = ''most_frequent'',
        fill_value = PyStr ''?'', tie_breaking = ''random'', copy = True, fill' = None\<rparr>
      [PyStr ''ab'', PyNone] = Inr [PyStr ''ab'']
   \<and> transform_seq (snd (fit \<lparr>missing_values = PyStr ''NaN'', strategy = ''most_frequent'',
        fill_value = PyStr ''?'', tie_breaking = ''random'', copy = True, fill' = None\<rparr>
      [PyStr ''ab'', PyNone] r)) [PyStr ''ab'', PyNone]
     = Inr [PyStr ''ab'', PyStr [''ab'' ! (r mod 2)]]
   \<and> [PyStr ''ab'', PyStr [''ab'' ! (r mod 2)]] \<noteq> [PyStr ''ab'', PyStr ''ab'']"
proof -
  let ?c = "\<lparr>missing_values = PyStr ''NaN'', strategy = ''most_frequent'',
        fill_value = PyStr ''?'', tie_breaking = ''random'', copy = True, fill' = None\<rparr>"
  let ?X = "[PyStr ''ab'', PyNone]"
  have modes: "fit_modes ?c ?X = Inr [PyStr ''ab'']"
    by code_simp
  have len: "length ''ab'' = 2"
    by simp
  have "fit ?c ?X r = (None, ?c\<lparr>fill' := Some (PyStr [''ab'' ! (r mod 2)])\<rparr>)"
    using fit_random_string [OF modes, of r] unfolding len by simp
  then have "transform_seq (snd (fit ?c ?X r)) ?X
      = Inr (assign_masked ?X (get_mask ?X (PyStr ''NaN'')) (PyStr [''ab'' ! (r mod 2)]))"
    by (simp add: transform_seq_eq)
  then show ?thesis using modes by (simp add: assign_masked_def get_mask_def)
qed

section \<open>The missing-value mask\<close>

text \<open>
  C3: when the sentinel is the token "NaN", \<^verbatim>\<open>None\<close> or a float NaN, the mask is
  \<^verbatim>\<open>pd.isnull\<close> of the data: it marks exactly the entries that are \<^verbatim>\<open>None\<close> or a float NaN, and
  an entry that is the string "NaN" is not marked. With \<^verbatim>\<open>missing_values = "NaN"\<close>,
  \<^verbatim>\<open>strategy = "most_frequent"\<close> and \<^verbatim>\<open>tie_breaking = "error"\<close>, fitting on a, b, b, "NaN"
  learns b, and transforming a, "NaN", b returns it unchanged; fitting on a, b, b, None
  learns b, and transforming a, None, b returns a, b, b.
\<close>

theorem canonical_mask_marks_null:
  assumes "v = PyStr ''NaN'' \<or> v = PyNone \<or> v = PyNaN"
    and "missing_values self = PyStr ''NaN''"
    and "strategy self = ''most_frequent''"
    and "tie_breaking self = ''error''"
  shows "get_mask X v = map isnull X
     \<and> (\<forall>i<length X. get_mask X v ! i \<longleftrightarrow> X ! i = PyNone \<or> X ! i = PyNaN)
     \<and> fit self [PyStr ''a'', PyStr ''b'', PyStr ''b'', PyStr ''NaN''] r
         = (None, self\<lparr>fill' := Some (PyStr ''b'')\<rparr>)
     \<and> transform_seq (snd (fit self [PyStr ''a'', PyStr ''b'', PyStr ''b'', PyStr ''NaN''] r))
           [PyStr ''a'', PyStr ''NaN'', PyStr ''b'']
         = Inr [PyStr ''a'', PyStr ''NaN'', PyStr ''b'']
     \<and> fit self [PyStr ''a'', PyStr ''b'', PyStr ''b'', PyNone] r
         = (None, self\<lparr>fill' := Some (PyStr ''b'')\<rparr>)
     \<and> transform_seq (snd (fit self [PyStr ''a'', PyStr ''b'', PyStr ''b'', PyNone] r))
           [PyStr ''a'', PyNone, PyStr ''b'']
         = Inr [PyStr ''a'', PyStr ''b'', PyStr ''b'']"
proof -
  have mask: "get_mask X v = map isnull X"
    using assms(1) by (rule get_mask_canonical)
  have entries: "\<forall>i<length X. get_mask X v ! i \<longleftrightarrow> X ! i = PyNone \<or> X ! i = PyNaN"
    by (simp add: mask isnull_iff)
  have not_random: "tie_breaking self \<noteq> ''random''"
    using assms(4) by simp
  have "series_mode [PyStr ''a'', PyStr ''b'', PyStr ''b'', PyStr ''NaN''] = [PyStr ''b'']"
    by code_simp
  then have "fit_modes self [PyStr ''a'', PyStr ''b'', PyStr ''b'', PyStr ''NaN''] = Inr [PyStr ''b'']"
    using assms(2,3) by (simp add: fit_modes_def get_mask_def select_unmasked_def)
  then have fit1: "fit self [PyStr ''a'', PyStr ''b'', PyStr ''b'', PyStr ''NaN''] r
      = (None, self\<lparr>fill' := Some (PyStr ''b'')\<rparr>)"
    using not_random by (rule fit_not_random) simp
  have "series_mode [PyStr ''a'', PyStr ''b'', PyStr ''b''] = [PyStr ''b'']"
    by code_simp
  then have "fit_modes self [PyStr ''a'', PyStr ''b'', PyStr ''b'', PyNone] = Inr [PyStr ''b'']"
    using assms(2,3) by (simp add: fit_modes_def get_mask_def select_unmasked_def)
  then have fit2: "fit self [PyStr ''a'', PyStr ''b'', PyStr ''b'', PyNone] r
      = (None, self\<lparr>fill' := Some (PyStr ''b'')\<rparr>)"
    using not_random by (rule fit_not_random) simp
  have tr1: "transform_seq (self\<lparr>fill' := Some (PyStr ''b'')\<rparr>) [PyStr ''a'', PyStr ''NaN'', PyStr ''b'']
      = Inr [PyStr ''a'', PyStr ''NaN'', PyStr ''b'']"
    using assms(2) by (simp add: transform_seq_eq get_mask_def assign_masked_def)
  have tr2: "transform_seq (self\<lparr>fill' := Some (PyStr ''b'')\<rparr>) [PyStr ''a'', PyNone, PyStr ''b'']
      = Inr [PyStr ''a'', PyStr ''b'', PyStr ''b'']"
    using assms(2) by (simp add: transform_seq_eq get_mask_def assign_masked_def)
  show ?thesis using mask entries fit1 fit2 tr1 tr2 by simp
qed

theorem canonical_mask_marks_null_witness:
  "(PyStr ''NaN'' = PyStr ''NaN'' \<or> PyStr ''NaN'' = PyNone \<or> PyStr ''NaN'' = PyNaN)
   \<and> get_mask [PyStr ''NaN'', PyNone, PyStr ''a'', PyNaN] (PyStr ''NaN'') = [False, True, False, True]
   \<and> transform_seq
        (snd (fit \<lparr>missing_values = PyStr ''NaN'', strategy = ''most_frequent'',
                fill_value = PyStr ''?'', tie_breaking = ''error'', copy = True, fill' = None\<rparr>
              [PyStr ''a'', PyStr ''b'', PyStr ''b'', PyNone] 0))
        [PyStr ''a'', PyNone, PyStr ''b'']
       = Inr [PyStr ''a'', PyStr ''b'', PyStr ''b'']"
proof -
  let ?c = "\<lparr>missing_values = PyStr ''NaN'', strategy = ''most_frequent'',
         fill_value = PyStr ''?'', tie_breaking = ''error'', copy = True, fill' = None\<rparr>"
  let ?X = "[PyStr ''NaN'', PyNone, PyStr ''a'', PyNaN]"
  have v: "PyStr ''NaN'' = PyStr ''NaN'' \<or> PyStr ''NaN'' = PyNone \<or> PyStr ''NaN'' = PyNaN"
    by simp
  have c: "missing_values ?c = PyStr ''NaN''" "strategy ?c = ''most_frequent''"
      "tie_breaking ?c = ''error''"
    by simp_all
  from canonical_mask_marks_null [OF v c, of ?X 0]
  have "get_mask ?X (PyStr ''NaN'') = map isnull ?X"
    and "transform_seq (snd (fit ?c [PyStr ''a'', PyStr ''b'', PyStr ''b'', PyNone] 0))
           [PyStr ''a'', PyNone, PyStr ''b''] = Inr [PyStr ''a'', PyStr ''b'', PyStr ''b'']"
    by blast+
  then show ?thesis by simp
qed

text \<open>
  The string "NaN" as an entry: the mask does not mark it, and the scenario of the
  specification returns a, "NaN", b and not a, b, b.
\<close>

theorem nan_string_entry_not_missing_counterexample:
  "get_mask [PyStr ''a'', PyStr ''NaN'', PyStr ''b''] (PyStr ''NaN'') = [False, False, False]
   \<and> transform_seq
        (snd (fit \<lparr>missing_values = PyStr ''NaN'', strategy = ''most_frequent'',
                fill_value = PyStr ''?'', tie_breaking = ''error'', copy = True, fill' = None\<rparr>
              [PyStr ''a'', PyStr ''b'', PyStr ''b'', PyStr ''NaN''] 0))
        [PyStr ''a'', PyStr ''NaN'', PyStr ''b'']
       = Inr [PyStr ''a'', PyStr ''NaN'', PyStr ''b'']
   \<and> Inr [PyStr ''a'', PyStr ''NaN'', PyStr ''b''] \<noteq> (Inr [PyStr ''a'', PyStr ''b'', PyStr ''b''] :: error + pyval list)"
  by code_simp

end
